theory Spec2Isabelle
  imports Main "HOL-Library.AList"
begin

section \<open>Response cache and rate shapers of \<open>src/lib/performance.ts\<close>\<close>

subsection \<open>Values and cache entries\<close>

text \<open>
  The cache stores payloads of type \<open>unknown\<close>. They are modelled as JavaScript values,
  which is what \<open>response.json()\<close> produces and what a caller of \<open>setCachedData\<close> can pass.
  Numbers are integers here; the only thing the code asks of a payload is its truthiness.
\<close>

datatype jsval =
    JUndefined
  | JNull
  | JBool bool
  | JNum int
  | JStr string
  | JArr "jsval list"
  | JObj "(string \<times> jsval) list"

text \<open>JavaScript's ToBoolean, as used by \<open>if (cached)\<close> and \<open>if (key)\<close>.\<close>

fun truthy :: "jsval \<Rightarrow> bool" where
  "truthy JUndefined = False"
| "truthy JNull = False"
| "truthy (JBool b) = b"
| "truthy (JNum n) = (n \<noteq> 0)"
| "truthy (JStr s) = (s \<noteq> [])"
| "truthy (JArr xs) = True"
| "truthy (JObj kvs) = True"

text \<open>
  The value type of \<open>apiCache\<close>: \<open>{ data: unknown; timestamp: number; ttl: number }\<close>.
  Timestamps are readings of \<open>Date.now()\<close>, in milliseconds; they and the time-to-live are
  integers, and nothing makes a later reading larger than an earlier one.
\<close>

record cache_entry =
  data :: jsval
  timestamp :: int
  ttl :: int

text \<open>\<open>const apiCache = new Map<string, ...>()\<close>: the module-level store.\<close>

type_synonym apiCache = "string \<rightharpoonup> cache_entry"

subsection \<open>Cache store operations\<close>

text \<open>
  Every operation takes the store and returns the store it leaves behind; \<open>now\<close> is the
  value \<open>Date.now()\<close> returns inside the call. \<open>getCachedData\<close> returns \<open>null\<close> both when
  the key is not in the map and when the entry has expired; in the second case it deletes
  the entry first.
\<close>

definition getCachedData :: "string \<Rightarrow> int \<Rightarrow> apiCache \<Rightarrow> jsval \<times> apiCache" where
  "getCachedData key now c =
     (case c key of
        None \<Rightarrow> (JNull, c)
      | Some cached \<Rightarrow>
          if now - timestamp cached > ttl cached then (JNull, c(key := None))
          else (data cached, c))"

definition setCachedData :: "string \<Rightarrow> jsval \<Rightarrow> int \<Rightarrow> int \<Rightarrow> apiCache \<Rightarrow> apiCache" where
  "setCachedData key d t now c = c(key \<mapsto> \<lparr>data = d, timestamp = now, ttl = t\<rparr>)"

text \<open>
  \<open>clearCache(key?: string)\<close>: the argument is \<open>None\<close> when omitted. The test \<open>if (key)\<close>
  is a truthiness test, so the empty string takes the \<open>else\<close> branch as \<open>undefined\<close> does.
\<close>

definition clearCache :: "string option \<Rightarrow> apiCache \<Rightarrow> apiCache" where
  "clearCache key c =
     (case key of
        None \<Rightarrow> Map.empty
      | Some k \<Rightarrow> if k \<noteq> [] then c(k := None) else Map.empty)"

subsection \<open>Cached fetch\<close>

text \<open>
  \<open>new Error(message)\<close>; a rejection of \<open>fetch\<close> or of \<open>response.json()\<close> is an error
  value too.
\<close>

datatype error = Error string

text \<open>\<open>CacheOptions\<close>: \<open>{ ttl?: number; key: string }\<close>.\<close>

record CacheOptions =
  ttl_opt :: "int option"
  key :: string

text \<open>The part of \<open>RequestInit\<close> the wrapper touches is \<open>headers\<close>; the rest is passed on.\<close>

record RequestInit =
  http_method :: "string option"
  headers :: "(string \<times> string) list"
  body :: "string option"

text \<open>
  What the caller sees of a \<open>Response\<close>: \<open>ok\<close>, \<open>status\<close> and the outcome of
  \<open>response.json()\<close>, which rejects on a body that is not JSON.
\<close>

record Response =
  ok :: bool
  status :: nat
  json :: "error + jsval"

text \<open>The network primitive \<open>fetch\<close>: it rejects or resolves to a response.\<close>

type_synonym fetch_prim = "string \<Rightarrow> RequestInit \<Rightarrow> error + Response"

text \<open>
  The state \<open>cachedFetch\<close> acts on: the store, and the calls made to the network
  primitive so far, in order.
\<close>

record world =
  store :: apiCache
  fetch_calls :: "(string \<times> RequestInit) list"

text \<open>Object spread \<open>{ ...base, ...ext }\<close>: a later property replaces an earlier one of the same name.\<close>

definition spread :: "(string \<times> string) list \<Rightarrow> (string \<times> string) list \<Rightarrow> (string \<times> string) list" where
  "spread base ext = fold (\<lambda>(k, v). AList.update k v) ext base"

text \<open>
  The second argument of the call to \<open>fetch\<close>:
  \<open>{ ...options, headers: { "Cache-Control": "max-age=60", ...options.headers } }\<close>.
\<close>

definition withCacheControl :: "RequestInit \<Rightarrow> RequestInit" where
  "withCacheControl options =
     options\<lparr>headers := spread [(''Cache-Control'', ''max-age=60'')] (headers options)\<rparr>"

text \<open>The decimal rendering of a status in the template literal.\<close>

definition digit :: "nat \<Rightarrow> char" where
  "digit n = ''0123456789'' ! (n mod 10)"

fun showNat :: "nat \<Rightarrow> string" where
  "showNat n = (if n < 10 then [digit n] else showNat (n div 10) @ [digit n])"

declare showNat.simps [simp del]

text \<open>
  \<open>cachedFetch(url, options, cacheOptions)\<close>. \<open>now\<close> is the clock reading of the lookup and
  \<open>now'\<close> the one of the store after the awaited response; the call runs without another
  task touching the store in between. The result is \<open>Inl\<close> for a rejected promise.
\<close>

definition cachedFetch ::
  "fetch_prim \<Rightarrow> string \<Rightarrow> RequestInit \<Rightarrow> CacheOptions \<Rightarrow> int \<Rightarrow> int \<Rightarrow> world
     \<Rightarrow> (error + jsval) \<times> world" where
  "cachedFetch fetch url options cacheOptions now now' w =
     (let k = key cacheOptions;
          t = (case ttl_opt cacheOptions of None \<Rightarrow> 60000 | Some x \<Rightarrow> x);
          (cached, c) = getCachedData k now (store w);
          w1 = w\<lparr>store := c\<rparr>
      in if truthy cached then (Inr cached, w1)
         else
           let req = withCacheControl options;
               w2 = w1\<lparr>fetch_calls := fetch_calls w1 @ [(url, req)]\<rparr>
           in case fetch url req of
                Inl e \<Rightarrow> (Inl e, w2)
              | Inr response \<Rightarrow>
                  if \<not> ok response
                  then (Inl (Error (''HTTP error! status: '' @ showNat (status response))), w2)
                  else (case json response of
                          Inl e \<Rightarrow> (Inl e, w2)
                        | Inr d \<Rightarrow> (Inr d, w2\<lparr>store := setCachedData k d t now' (store w2)\<rparr>)))"

text \<open>
  The two ways \<open>getCachedData\<close> finds nothing for a key: no entry, or an entry older
  than its ttl. A valid entry whose payload is \<open>null\<close> is not among them.
\<close>

definition lookup_misses :: "string \<Rightarrow> int \<Rightarrow> apiCache \<Rightarrow> bool" where
  "lookup_misses k now c = (case c k of None \<Rightarrow> True | Some e \<Rightarrow> now - timestamp e > ttl e)"

subsection \<open>Timers of the host\<close>

text \<open>
  \<open>setTimeout\<close> and \<open>clearTimeout\<close> on a simulated clock: the queue holds, for each pending
  timer, its handle, the time it is due and its callback. A timer fires at the time it is
  due; timers due at the same time fire in the order they were set.
\<close>

type_synonym 'cb timer_queue = "(nat \<times> int \<times> 'cb) list"

definition setTimeout :: "'cb \<Rightarrow> int \<Rightarrow> int \<Rightarrow> nat \<Rightarrow> 'cb timer_queue \<Rightarrow> 'cb timer_queue" where
  "setTimeout cb delay now h q = q @ [(h, now + max 0 delay, cb)]"

definition clearTimeout :: "nat option \<Rightarrow> 'cb timer_queue \<Rightarrow> 'cb timer_queue" where
  "clearTimeout h q = (case h of None \<Rightarrow> q | Some i \<Rightarrow> filter (\<lambda>(j, d, cb). j \<noteq> i) q)"

definition due_timers :: "int \<Rightarrow> 'cb timer_queue \<Rightarrow> 'cb timer_queue" where
  "due_timers t q = sort_key (\<lambda>(j, d, cb). d) (filter (\<lambda>(j, d, cb). d \<le> t) q)"

definition later_timers :: "int \<Rightarrow> 'cb timer_queue \<Rightarrow> 'cb timer_queue" where
  "later_timers t q = filter (\<lambda>(j, d, cb). \<not> d \<le> t) q"

text \<open>
  The host as a wrapper sees it: the timer queue, the next fresh handle, and the record of
  the calls of the wrapped \<open>func\<close> (time of the call and arguments).
\<close>

record ('cb, 'a) host =
  timers :: "'cb timer_queue"
  next_handle :: nat
  executed :: "(int \<times> 'a) list"

subsection \<open>Debounce\<close>

text \<open>
  The closure of \<open>debounce(func, wait)\<close> owns \<open>timeout\<close>, which is \<open>undefined\<close> until the
  first call. The callback of its timer is \<open>() => func(...args)\<close>, so a pending timer
  carries the arguments it captured.
\<close>

record 'a debounce_state = "('a, 'a) host" +
  timeout :: "nat option"

definition debounce_init :: "'a debounce_state" where
  "debounce_init = \<lparr>timers = [], next_handle = 0, executed = [], timeout = None\<rparr>"

text \<open>The returned wrapper, called with \<open>args\<close> at time \<open>now\<close>. It returns nothing.\<close>

definition debounced :: "int \<Rightarrow> 'a \<Rightarrow> int \<Rightarrow> 'a debounce_state \<Rightarrow> 'a debounce_state" where
  "debounced wait args now s =
     (let q = clearTimeout (timeout s) (timers s);
          h = next_handle s
      in s\<lparr>timers := setTimeout args wait now h q, next_handle := Suc h, timeout := Some h\<rparr>)"

text \<open>The clock reaches \<open>t\<close>: every timer due by then runs its callback, which calls \<open>func\<close>.\<close>

definition debounce_fire :: "int \<Rightarrow> 'a debounce_state \<Rightarrow> 'a debounce_state" where
  "debounce_fire t s =
     s\<lparr>timers := later_timers t (timers s),
       executed := executed s @ map (\<lambda>(j, d, args). (d, args)) (due_timers t (timers s))\<rparr>"

text \<open>A timeline of calls of the wrapper, each at its time, the timers due firing first.\<close>

fun debounce_run :: "int \<Rightarrow> (int \<times> 'a) list \<Rightarrow> 'a debounce_state \<Rightarrow> 'a debounce_state" where
  "debounce_run wait [] s = s"
| "debounce_run wait ((t, args) # cs) s = debounce_run wait cs (debounced wait args t (debounce_fire t s))"

subsection \<open>Throttle\<close>

text \<open>
  The closure of \<open>throttle(func, limit)\<close> owns \<open>inThrottle\<close>, \<open>undefined\<close> (falsy) until the
  first call. The callback of its timer is \<open>() => (inThrottle = false)\<close>.
\<close>

record 'a throttle_state = "(unit, 'a) host" +
  inThrottle :: bool

definition throttle_init :: "'a throttle_state" where
  "throttle_init = \<lparr>timers = [], next_handle = 0, executed = [], inThrottle = False\<rparr>"

definition throttled :: "int \<Rightarrow> 'a \<Rightarrow> int \<Rightarrow> 'a throttle_state \<Rightarrow> 'a throttle_state" where
  "throttled limit args now s =
     (if \<not> inThrottle s
      then s\<lparr>executed := executed s @ [(now, args)],
             inThrottle := True,
             timers := setTimeout () limit now (next_handle s) (timers s),
             next_handle := Suc (next_handle s)\<rparr>
      else s)"

definition throttle_fire :: "int \<Rightarrow> 'a throttle_state \<Rightarrow> 'a throttle_state" where
  "throttle_fire t s =
     s\<lparr>timers := later_timers t (timers s),
       inThrottle := (if due_timers t (timers s) = [] then inThrottle s else False)\<rparr>"

fun throttle_run :: "int \<Rightarrow> (int \<times> 'a) list \<Rightarrow> 'a throttle_state \<Rightarrow> 'a throttle_state" where
  "throttle_run limit [] s = s"
| "throttle_run limit ((t, args) # cs) s = throttle_run limit cs (throttled limit args t (throttle_fire t s))"

section \<open>Properties\<close>

subsection \<open>Lookup, by case\<close>

lemma getCachedData_absent: "c k = None \<Longrightarrow> getCachedData k now c = (JNull, c)"
  by (simp add: getCachedData_def)

lemma getCachedData_valid:
  "c k = Some e \<Longrightarrow> now - timestamp e \<le> ttl e \<Longrightarrow> getCachedData k now c = (data e, c)"
  by (simp add: getCachedData_def)

lemma getCachedData_expired:
  "c k = Some e \<Longrightarrow> now - timestamp e > ttl e \<Longrightarrow> getCachedData k now c = (JNull, c(k := None))"
  by (simp add: getCachedData_def)

lemma getCachedData_misses:
  "lookup_misses k now c \<Longrightarrow> getCachedData k now c = (JNull, c(k := None))"
  by (auto simp add: getCachedData_def lookup_misses_def split: option.splits)

lemmas timer_defs = setTimeout_def clearTimeout_def due_timers_def later_timers_def

subsection \<open>Cached fetch on a hit\<close>

text \<open>
  When the stored payload is truthy, a valid entry is returned, the store is as it was and
  the network primitive is not called.
\<close>

lemma cachedFetch_truthy_hit:
  assumes "store w (key co) = Some e" and "now - timestamp e \<le> ttl e" and "truthy (data e)"
  shows "cachedFetch fetch url options co now now' w = (Inr (data e), w)"
  using assms by (simp add: cachedFetch_def getCachedData_valid)

text \<open>
  C1: for every key and every stored payload that is a valid (unexpired) cache hit,
  \<open>cachedFetch\<close> returns the cached payload and makes no call to the network primitive.
  The code tests the looked-up payload for truthiness, so a valid entry whose payload is
  falsy is fetched again. Here the entry for \<open>k\<close> holds the number 0, set at time 0 with a
  ttl of 60000: at time 1 \<open>getCachedData\<close> returns it and leaves the store alone, while
  \<open>cachedFetch\<close> calls the network once and returns the fetched 7.
\<close>

theorem cachedFetch_falsy_hit_refetches:
  "getCachedData ''k'' 1 [''k'' \<mapsto> \<lparr>data = JNum 0, timestamp = 0, ttl = 60000\<rparr>]
      = (JNum 0, [''k'' \<mapsto> \<lparr>data = JNum 0, timestamp = 0, ttl = 60000\<rparr>])
   \<and> fst (cachedFetch (\<lambda>u r. Inr \<lparr>ok = True, status = 200, json = Inr (JNum 7)\<rparr>) ''/api/count''
        \<lparr>http_method = None, headers = [], body = None\<rparr> \<lparr>ttl_opt = None, key = ''k''\<rparr> 1 2
        \<lparr>store = [''k'' \<mapsto> \<lparr>data = JNum 0, timestamp = 0, ttl = 60000\<rparr>], fetch_calls = []\<rparr>)
      = Inr (JNum 7)
   \<and> length (fetch_calls (snd (cachedFetch (\<lambda>u r. Inr \<lparr>ok = True, status = 200, json = Inr (JNum 7)\<rparr>) ''/api/count''
        \<lparr>http_method = None, headers = [], body = None\<rparr> \<lparr>ttl_opt = None, key = ''k''\<rparr> 1 2
        \<lparr>store = [''k'' \<mapsto> \<lparr>data = JNum 0, timestamp = 0, ttl = 60000\<rparr>], fetch_calls = []\<rparr>))) = 1"
  by (simp add: cachedFetch_def getCachedData_def Let_def)

subsection \<open>Clearing\<close>

text \<open>A non-empty key removes that entry and nothing else; no argument removes everything.\<close>

lemma clearCache_key: "k \<noteq> [] \<Longrightarrow> clearCache (Some k) c = c(k := None)"
  by (simp add: clearCache_def)

lemma clearCache_all: "clearCache None c k = None"
  by (simp add: clearCache_def)

text \<open>
  C2: for every given key, the empty string included, \<open>clearCache(key)\<close> removes at most
  that entry and every other key stays retrievable; \<open>clearCache()\<close> removes all entries.
  The code tests the key for truthiness, so \<open>clearCache("")\<close> takes the branch of the
  omitted argument: with entries under \<open>a\<close> and under the empty string, the entry under
  \<open>a\<close> is gone afterwards.
\<close>

theorem clearCache_empty_key_clears_all:
  "clearCache (Some '''')
     [''a'' \<mapsto> \<lparr>data = JNum 1, timestamp = 0, ttl = 60000\<rparr>,
      '''' \<mapsto> \<lparr>data = JNum 2, timestamp = 0, ttl = 60000\<rparr>] ''a''
   = None"
  by (simp add: clearCache_def)

subsection \<open>Round trip and expiry\<close>

text \<open>
  C3: for all key, payload and ttl > 0, \<open>setCachedData(key, payload, ttl)\<close> followed by
  \<open>getCachedData(key)\<close> within ttl milliseconds of the set returns the payload unchanged.
  The set reads the clock as \<open>now\<close>, the get as \<open>now'\<close>. The property holds for every ttl,
  positive or not, as long as the get is within it; the get leaves the entry in place.
\<close>

theorem set_then_get_roundtrip:
  assumes "now' - now \<le> t"
  shows "getCachedData k now' (setCachedData k d t now c) = (d, setCachedData k d t now c)"
  using assms by (simp add: getCachedData_def setCachedData_def)

theorem set_then_get_roundtrip_witness:
  "(59999::int) - 0 \<le> 60000 \<and>
   getCachedData ''invoices:p1'' 59999
     (setCachedData ''invoices:p1'' (JArr [JObj [(''id'', JNum 1)]]) 60000 0 Map.empty)
   = (JArr [JObj [(''id'', JNum 1)]],
      setCachedData ''invoices:p1'' (JArr [JObj [(''id'', JNum 1)]]) 60000 0 Map.empty)"
  using set_then_get_roundtrip [of 59999 0 60000 "''invoices:p1''" "JArr [JObj [(''id'', JNum 1)]]" Map.empty]
  by simp

text \<open>
  C4: an entry in the store is valid if and only if \<open>now - insertedAt \<le> ttl\<close>, so it is
  still valid when the two are equal; when \<open>now - insertedAt > ttl\<close>, \<open>getCachedData\<close>
  returns absent and removes the entry. Eviction happens on that read only: the entry is in
  the store after the read exactly when it was valid, and no other key is touched by it,
  expired or not.
\<close>

theorem getCachedData_validity:
  assumes "c k = Some e"
  shows "(now - timestamp e \<le> ttl e \<longrightarrow> getCachedData k now c = (data e, c))
       \<and> (now - timestamp e > ttl e \<longrightarrow> getCachedData k now c = (JNull, c(k := None)))
       \<and> ((snd (getCachedData k now c) k \<noteq> None) = (now - timestamp e \<le> ttl e))
       \<and> (\<forall>k'. k' \<noteq> k \<longrightarrow> snd (getCachedData k now c) k' = c k')"
  using assms by (simp add: getCachedData_def)

theorem getCachedData_validity_witness:
  "getCachedData ''k'' 60005 [''k'' \<mapsto> \<lparr>data = JStr ''v'', timestamp = 5, ttl = 60000\<rparr>]
     = (JStr ''v'', [''k'' \<mapsto> \<lparr>data = JStr ''v'', timestamp = 5, ttl = 60000\<rparr>])
   \<and> getCachedData ''k'' 60006 [''k'' \<mapsto> \<lparr>data = JStr ''v'', timestamp = 5, ttl = 60000\<rparr>]
     = (JNull, [''k'' \<mapsto> \<lparr>data = JStr ''v'', timestamp = 5, ttl = 60000\<rparr>](''k'' := None))"
proof -
  let ?e = "\<lparr>data = JStr ''v'', timestamp = 5, ttl = 60000\<rparr>"
  let ?c = "[''k'' \<mapsto> ?e]"
  have h: "?c ''k'' = Some ?e" by simp
  show ?thesis
    using getCachedData_validity [where c = ?c and k = "''k''" and e = ?e and now = 60005, OF h]
      getCachedData_validity [where c = ?c and k = "''k''" and e = ?e and now = 60006, OF h]
    by simp
qed

subsection \<open>Writes and reads of the store\<close>

text \<open>
  C6: for every key, payload and ttl, \<open>setCachedData\<close> inserts or overwrites the entry for
  the key with the current timestamp and the given ttl, whether or not an entry exists and
  whether or not it is still valid. After the call the key holds exactly the new entry,
  every other key is as before, and the result does not depend on what the key held
  (\<open>prev\<close> is any previous content, none included).
\<close>

theorem setCachedData_overwrites:
  "setCachedData k d t now c k = Some \<lparr>data = d, timestamp = now, ttl = t\<rparr>
   \<and> (\<forall>k'. k' \<noteq> k \<longrightarrow> setCachedData k d t now c k' = c k')
   \<and> setCachedData k d t now (c(k := prev)) = setCachedData k d t now c"
  by (simp add: setCachedData_def)

theorem setCachedData_overwrites_witness:
  "setCachedData ''k'' (JNum 2) 30000 100 [''k'' \<mapsto> \<lparr>data = JNum 1, timestamp = 0, ttl = 60000\<rparr>] ''k''
     = Some \<lparr>data = JNum 2, timestamp = 100, ttl = 30000\<rparr>
   \<and> setCachedData ''k'' (JNum 2) 30000 100 [''k'' \<mapsto> \<lparr>data = JNum 1, timestamp = 0, ttl = 60000\<rparr>] ''j''
     = None"
  using setCachedData_overwrites [where k = "''k''" and d = "JNum 2" and t = 30000 and now = 100
      and c = "[''k'' \<mapsto> \<lparr>data = JNum 1, timestamp = 0, ttl = 60000\<rparr>]" and prev = None]
  by simp

text \<open>
  C7: for every key whose entry is valid at read time, \<open>getCachedData\<close> leaves the mapping
  unchanged: payload, timestamp and ttl of the entry stay as they are, and no other entry is
  added, removed or modified. The store returned is the store given.
\<close>

theorem getCachedData_hit_no_change:
  assumes "c k = Some e" and "now - timestamp e \<le> ttl e"
  shows "snd (getCachedData k now c) = c \<and> fst (getCachedData k now c) = data e"
  using assms by (simp add: getCachedData_def)

theorem getCachedData_hit_no_change_witness:
  "snd (getCachedData ''k'' 30
          [''k'' \<mapsto> \<lparr>data = JBool True, timestamp = 10, ttl = 50\<rparr>,
           ''old'' \<mapsto> \<lparr>data = JNull, timestamp = 0, ttl = 1\<rparr>])
     = [''k'' \<mapsto> \<lparr>data = JBool True, timestamp = 10, ttl = 50\<rparr>,
        ''old'' \<mapsto> \<lparr>data = JNull, timestamp = 0, ttl = 1\<rparr>]
   \<and> fst (getCachedData ''k'' 30
          [''k'' \<mapsto> \<lparr>data = JBool True, timestamp = 10, ttl = 50\<rparr>,
           ''old'' \<mapsto> \<lparr>data = JNull, timestamp = 0, ttl = 1\<rparr>])
     = JBool True"
proof -
  let ?e = "\<lparr>data = JBool True, timestamp = 10, ttl = 50\<rparr>"
  let ?c = "[''k'' \<mapsto> ?e, ''old'' \<mapsto> \<lparr>data = JNull, timestamp = 0, ttl = 1\<rparr>]"
  have h1: "?c ''k'' = Some ?e" by simp
  have h2: "30 - timestamp ?e \<le> ttl ?e" by simp
  show ?thesis
    using getCachedData_hit_no_change [where c = ?c and k = "''k''" and e = ?e and now = 30, OF h1 h2]
    by simp
qed

subsection \<open>Cached fetch on a miss\<close>

text \<open>
  A miss on an expired entry is not free of effect on the store: the lookup deletes the
  entry before the request is made, and the failed request does not put it back. With an
  entry for \<open>k\<close> set at time 0 with a ttl of 10, a call at time 11 that is answered with
  status 500 rejects with that status and leaves a store that differs from the one before.
\<close>

theorem cachedFetch_failure_evicts_counterexample:
  "lookup_misses ''k'' 11 [''k'' \<mapsto> \<lparr>data = JStr ''old'', timestamp = 0, ttl = 10\<rparr>]
   \<and> fst (cachedFetch (\<lambda>u q. Inr \<lparr>ok = False, status = 500, json = Inl (Error ''no body'')\<rparr>)
            ''/api/invoices'' \<lparr>http_method = None, headers = [], body = None\<rparr>
            \<lparr>ttl_opt = None, key = ''k''\<rparr> 11 12
            \<lparr>store = [''k'' \<mapsto> \<lparr>data = JStr ''old'', timestamp = 0, ttl = 10\<rparr>], fetch_calls = []\<rparr>)
       = Inl (Error ''HTTP error! status: 500'')
   \<and> store (snd (cachedFetch (\<lambda>u q. Inr \<lparr>ok = False, status = 500, json = Inl (Error ''no body'')\<rparr>)
            ''/api/invoices'' \<lparr>http_method = None, headers = [], body = None\<rparr>
            \<lparr>ttl_opt = None, key = ''k''\<rparr> 11 12
            \<lparr>store = [''k'' \<mapsto> \<lparr>data = JStr ''old'', timestamp = 0, ttl = 10\<rparr>], fetch_calls = []\<rparr>))
       \<noteq> [''k'' \<mapsto> \<lparr>data = JStr ''old'', timestamp = 0, ttl = 10\<rparr>]"
proof -
  have msg: "showNat 500 = ''500''" by (simp add: showNat.simps digit_def)
  let ?c = "[''k'' \<mapsto> \<lparr>data = JStr ''old'', timestamp = 0, ttl = 10\<rparr>]"
  have neq: "?c(''k'' := None) \<noteq> ?c"
  proof
    assume "?c(''k'' := None) = ?c"
    then have "(?c(''k'' := None)) ''k'' = ?c ''k''" by (rule fun_cong)
    then show False by simp
  qed
  show ?thesis
    using neq by (simp add: lookup_misses_def cachedFetch_def getCachedData_def Let_def msg)
qed

text \<open>
  C5: for every key whose lookup misses (no entry, or an expired one), if the network
  response indicates failure (status 500, say), \<open>cachedFetch\<close> rejects with an error
  carrying that status code and caches nothing: the key is absent from the store afterwards
  and every other entry is as before. The store is unchanged when the key had no entry;
  when its entry had expired, the removal of that entry by the lookup is the only change.
  The message of the error ends in the decimal status, and the network primitive was
  called once.
\<close>

theorem cachedFetch_failure:
  assumes miss: "lookup_misses (key co) now (store w)"
    and resp: "fetch url (withCacheControl options) = Inr r"
    and fail: "\<not> ok r"
  shows "fst (cachedFetch fetch url options co now now' w)
           = Inl (Error (''HTTP error! status: '' @ showNat (status r)))
       \<and> store (snd (cachedFetch fetch url options co now now' w)) = (store w)((key co) := None)
       \<and> store (snd (cachedFetch fetch url options co now now' w)) (key co) = None
       \<and> (store w (key co) = None \<longrightarrow> store (snd (cachedFetch fetch url options co now now' w)) = store w)
       \<and> fetch_calls (snd (cachedFetch fetch url options co now now' w))
           = fetch_calls w @ [(url, withCacheControl options)]"
  using assms by (auto simp add: cachedFetch_def getCachedData_misses Let_def)

theorem cachedFetch_failure_witness:
  "lookup_misses ''k'' 5 Map.empty
   \<and> fst (cachedFetch (\<lambda>u q. Inr \<lparr>ok = False, status = 500, json = Inl (Error ''no body'')\<rparr>)
            ''/api/invoices'' \<lparr>http_method = None, headers = [], body = None\<rparr>
            \<lparr>ttl_opt = Some 1000, key = ''k''\<rparr> 5 9 \<lparr>store = Map.empty, fetch_calls = []\<rparr>)
       = Inl (Error ''HTTP error! status: 500'')
   \<and> store (snd (cachedFetch (\<lambda>u q. Inr \<lparr>ok = False, status = 500, json = Inl (Error ''no body'')\<rparr>)
            ''/api/invoices'' \<lparr>http_method = None, headers = [], body = None\<rparr>
            \<lparr>ttl_opt = Some 1000, key = ''k''\<rparr> 5 9 \<lparr>store = Map.empty, fetch_calls = []\<rparr>))
       = Map.empty
   \<and> lookup_misses ''k'' 11
        [''k'' \<mapsto> \<lparr>data = JStr ''old'', timestamp = 0, ttl = 10\<rparr>,
         ''j'' \<mapsto> \<lparr>data = JNum 3, timestamp = 0, ttl = 60000\<rparr>]
   \<and> fst (cachedFetch (\<lambda>u q. Inr \<lparr>ok = False, status = 500, json = Inl (Error ''no body'')\<rparr>)
            ''/api/invoices'' \<lparr>http_method = None, headers = [], body = None\<rparr>
            \<lparr>ttl_opt = Some 1000, key = ''k''\<rparr> 11 12
            \<lparr>store = [''k'' \<mapsto> \<lparr>data = JStr ''old'', timestamp = 0, ttl = 10\<rparr>,
                      ''j'' \<mapsto> \<lparr>data = JNum 3, timestamp = 0, ttl = 60000\<rparr>], fetch_calls = []\<rparr>)
       = Inl (Error ''HTTP error! status: 500'')
   \<and> store (snd (cachedFetch (\<lambda>u q. Inr \<lparr>ok = False, status = 500, json = Inl (Error ''no body'')\<rparr>)
            ''/api/invoices'' \<lparr>http_method = None, headers = [], body = None\<rparr>
            \<lparr>ttl_opt = Some 1000, key = ''k''\<rparr> 11 12
            \<lparr>store = [''k'' \<mapsto> \<lparr>data = JStr ''old'', timestamp = 0, ttl = 10\<rparr>,
                      ''j'' \<mapsto> \<lparr>data = JNum 3, timestamp = 0, ttl = 60000\<rparr>], fetch_calls = []\<rparr>))
       = [''k'' \<mapsto> \<lparr>data = JStr ''old'', timestamp = 0, ttl = 10\<rparr>,
          ''j'' \<mapsto> \<lparr>data = JNum 3, timestamp = 0, ttl = 60000\<rparr>](''k'' := None)"
proof -
  let ?r = "\<lparr>ok = False, status = 500, json = Inl (Error ''no body'')\<rparr>"
  let ?fetch = "\<lambda>(u::string) (q::RequestInit). (Inr ?r :: error + Response)"
  let ?options = "\<lparr>http_method = None, headers = [], body = None\<rparr>"
  let ?co = "\<lparr>ttl_opt = Some 1000, key = ''k''\<rparr>"
  let ?w = "\<lparr>store = Map.empty, fetch_calls = []\<rparr>"
  let ?c = "[''k'' \<mapsto> \<lparr>data = JStr ''old'', timestamp = 0, ttl = 10\<rparr>,
            ''j'' \<mapsto> \<lparr>data = JNum 3, timestamp = 0, ttl = 60000\<rparr>]"
  let ?v = "\<lparr>store = ?c, fetch_calls = []\<rparr>"
  have miss: "lookup_misses (key ?co) 5 (store ?w)" by (simp add: lookup_misses_def)
  have miss': "lookup_misses (key ?co) 11 (store ?v)" by (simp add: lookup_misses_def)
  have resp: "?fetch ''/api/invoices'' (withCacheControl ?options) = Inr ?r" by simp
  have fail: "\<not> ok ?r" by simp
  have msg: "showNat 500 = ''500''" by (simp add: showNat.simps digit_def)
  show ?thesis
    using cachedFetch_failure [where co = ?co and now = 5 and w = ?w and fetch = ?fetch
        and url = "''/api/invoices''" and options = ?options and r = ?r and now' = 9,
        OF miss resp fail]
      cachedFetch_failure [where co = ?co and now = 11 and w = ?v and fetch = ?fetch
        and url = "''/api/invoices''" and options = ?options and r = ?r and now' = 12,
        OF miss' resp fail]
      miss miss' msg
    by simp
qed

text \<open>
  C10: when the cache options omit \<open>ttl\<close>, a successful fetch stores the parsed payload
  with a time-to-live of exactly 60000 milliseconds. A fetch happens when the lookup
  returns nothing truthy; it succeeds when the response is ok and its body parses.
\<close>

theorem cachedFetch_default_ttl:
  assumes "ttl_opt co = None"
    and "\<not> truthy (fst (getCachedData (key co) now (store w)))"
    and "fetch url (withCacheControl options) = Inr r"
    and "ok r"
    and "json r = Inr d"
  shows "fst (cachedFetch fetch url options co now now' w) = Inr d
       \<and> store (snd (cachedFetch fetch url options co now now' w)) (key co)
           = Some \<lparr>data = d, timestamp = now', ttl = 60000\<rparr>"
  using assms by (auto simp add: cachedFetch_def setCachedData_def Let_def split: prod.splits)

theorem cachedFetch_default_ttl_witness:
  "fst (cachedFetch (\<lambda>u q. Inr \<lparr>ok = True, status = 200, json = Inr (JArr [JNum 1])\<rparr>)
          ''/api/customers'' \<lparr>http_method = None, headers = [], body = None\<rparr>
          \<lparr>ttl_opt = None, key = ''customers''\<rparr> 5 9 \<lparr>store = Map.empty, fetch_calls = []\<rparr>)
     = Inr (JArr [JNum 1])
   \<and> store (snd (cachedFetch (\<lambda>u q. Inr \<lparr>ok = True, status = 200, json = Inr (JArr [JNum 1])\<rparr>)
          ''/api/customers'' \<lparr>http_method = None, headers = [], body = None\<rparr>
          \<lparr>ttl_opt = None, key = ''customers''\<rparr> 5 9 \<lparr>store = Map.empty, fetch_calls = []\<rparr>)) ''customers''
     = Some \<lparr>data = JArr [JNum 1], timestamp = 9, ttl = 60000\<rparr>"
proof -
  let ?r = "\<lparr>ok = True, status = 200, json = Inr (JArr [JNum 1])\<rparr>"
  let ?fetch = "\<lambda>(u::string) (q::RequestInit). (Inr ?r :: error + Response)"
  let ?options = "\<lparr>http_method = None, headers = [], body = None\<rparr>"
  let ?co = "\<lparr>ttl_opt = None, key = ''customers''\<rparr>"
  let ?w = "\<lparr>store = Map.empty, fetch_calls = []\<rparr>"
  have h1: "ttl_opt ?co = None" by simp
  have h2: "\<not> truthy (fst (getCachedData (key ?co) 5 (store ?w)))" by (simp add: getCachedData_def)
  have h3: "?fetch ''/api/customers'' (withCacheControl ?options) = Inr ?r" by simp
  have h4: "ok ?r" by simp
  have h5: "json ?r = Inr (JArr [JNum 1])" by simp
  show ?thesis
    using cachedFetch_default_ttl [where co = ?co and now = 5 and w = ?w and fetch = ?fetch
        and url = "''/api/customers''" and options = ?options and r = ?r and now' = 9
        and d = "JArr [JNum 1]", OF h1 h2 h3 h4 h5]
    by simp
qed

subsection \<open>Debounce and throttle scenarios\<close>

text \<open>
  C8: a debounced wrapper with a wait of 200 called at times 0, 50 and 100 runs the wrapped
  action exactly once, at time 300, with the arguments of the third call; the first two
  calls leave no trace, and the wrapper returns nothing. \<open>T\<close> is the time the clock has
  reached after the calls: nothing has run before 300, and from 300 on the only execution
  is the one at 300 with \<open>a3\<close>.
\<close>

theorem debounce_scenario:
  "(100 \<le> T \<and> T < 300 \<longrightarrow>
      executed (debounce_fire T (debounce_run 200 [(0, a1), (50, a2), (100, a3)] debounce_init)) = [])
   \<and> (300 \<le> T \<longrightarrow>
      executed (debounce_fire T (debounce_run 200 [(0, a1), (50, a2), (100, a3)] debounce_init)) = [(300, a3)])"
  by (simp add: debounce_init_def debounced_def debounce_fire_def timer_defs Let_def)

theorem debounce_scenario_witness:
  "executed (debounce_fire 299 (debounce_run 200 [(0, ''a''), (50, ''b''), (100, ''c'')] debounce_init)) = []
   \<and> executed (debounce_fire 300 (debounce_run 200 [(0, ''a''), (50, ''b''), (100, ''c'')] debounce_init))
       = [(300, ''c'')]"
  using debounce_scenario [of 299 "''a''" "''b''" "''c''"] debounce_scenario [of 300 "''a''" "''b''" "''c''"]
  by simp

text \<open>
  C9: a throttled wrapper with a window of 1000 called at times 0, 200, 400 and 1100 runs
  the wrapped action exactly twice, at 0 and at 1100: the first call of a window runs at
  once, and the calls at 200 and 400 are dropped. After the first three calls the only
  execution is the one at 0; after the fourth there are two, and no timer adds another
  however far the clock advances (\<open>T\<close>).
\<close>

theorem throttle_scenario:
  "executed (throttle_run 1000 [(0, a1), (200, a2), (400, a3)] throttle_init) = [(0, a1)]
   \<and> executed (throttle_run 1000 [(0, a1), (200, a2), (400, a3), (1100, a4)] throttle_init)
       = [(0, a1), (1100, a4)]
   \<and> executed (throttle_fire T (throttle_run 1000 [(0, a1), (200, a2), (400, a3), (1100, a4)] throttle_init))
       = [(0, a1), (1100, a4)]"
  by (simp add: throttle_init_def throttled_def throttle_fire_def timer_defs Let_def)

theorem throttle_scenario_witness:
  "executed (throttle_fire 5000
      (throttle_run 1000 [(0, ''a''), (200, ''b''), (400, ''c''), (1100, ''d'')] throttle_init))
   = [(0, ''a''), (1100, ''d'')]"
  using throttle_scenario [of "''a''" "''b''" "''c''" "''d''" 5000]
  by simp

end
